theory Spec2Isabelle
  imports Complex_Main "HOL-Library.Log_Nat" "HOL-Library.Multiset"
begin
section \<open>Characters and strings\<close>

text \<open>
  A Python \<open>str\<close> is modelled as a \<^typ>\<open>string\<close> whose characters are the code
  points U+0000 to U+00FF (Latin-1): \<^term>\<open>of_char c\<close> is the code point. On this
  range \<open>str.isspace\<close>, \<open>str.isalnum\<close> and \<open>str.lower\<close> are the following
  tables (Unicode character database); \<open>str.lower\<close> works character by character
  there. Text with code points above U+00FF is outside the model.
\<close>

definition py_isspace :: "char \<Rightarrow> bool" where
  "py_isspace c =
     (let n = (of_char c :: nat)
      in (9 \<le> n \<and> n \<le> 13) \<or> (28 \<le> n \<and> n \<le> 32) \<or> n = 133 \<or> n = 160)"

definition py_isalnum :: "char \<Rightarrow> bool" where
  "py_isalnum c =
     (let n = (of_char c :: nat)
      in (48 \<le> n \<and> n \<le> 57) \<or> (65 \<le> n \<and> n \<le> 90) \<or> (97 \<le> n \<and> n \<le> 122) \<or>
         n = 170 \<or> n = 178 \<or> n = 179 \<or> n = 181 \<or> n = 185 \<or> n = 186 \<or>
         (188 \<le> n \<and> n \<le> 190) \<or> (192 \<le> n \<and> n \<le> 214) \<or>
         (216 \<le> n \<and> n \<le> 246) \<or> (248 \<le> n \<and> n \<le> 255))"

definition lower_char :: "char \<Rightarrow> char" where
  "lower_char c =
     (let n = (of_char c :: nat)
      in if (65 \<le> n \<and> n \<le> 90) \<or> (192 \<le> n \<and> n \<le> 214) \<or> (216 \<le> n \<and> n \<le> 222)
         then char_of (n + 32) else c)"

definition py_lower :: "string \<Rightarrow> string" where
  "py_lower s = map lower_char s"

text \<open>
  \<open>s.split()\<close>: the maximal runs of characters that are not whitespace, in order.
  \<open>split_from cur s\<close> scans \<open>s\<close> with the run read so far in \<open>cur\<close>.
\<close>

fun split_from :: "string \<Rightarrow> string \<Rightarrow> string list" where
  "split_from cur [] = (if cur = [] then [] else [cur])"
| "split_from cur (c # cs) =
     (if py_isspace c
      then (if cur = [] then split_from [] cs else cur # split_from [] cs)
      else split_from (cur @ [c]) cs)"

definition py_split :: "string \<Rightarrow> string list" where
  "py_split s = split_from [] s"



text \<open>\<open>sep.join(xs)\<close> and \<open>s.strip()\<close>.\<close>

fun py_join :: "string \<Rightarrow> string list \<Rightarrow> string" where
  "py_join sep [] = []"
| "py_join sep [x] = x"
| "py_join sep (x # y # ys) = x @ sep @ py_join sep (y # ys)"

definition py_strip :: "string \<Rightarrow> string" where
  "py_strip s = rev (dropWhile py_isspace (rev (dropWhile py_isspace s)))"

section \<open>Normalizer\<close>

definition normalize_token :: "string \<Rightarrow> string" where
  "normalize_token v =
     (let cleaned = filter (\<lambda>ch. py_isalnum ch \<or> py_isspace ch) (py_lower v)
      in py_strip (py_join '' '' (py_split cleaned)))"


section \<open>Matcher\<close>

definition tokenize :: "string \<Rightarrow> string set" where
  "tokenize phrase = set (py_split phrase)"

text \<open>
  The loop over the pantry returns at the first item that matches, so the result is
  whether some item matches; the order in which a set is visited does not matter.
  \<open>overlap\<close> and the two lengths are integers; their quotient is compared with
  \<open>0.6\<close> as a rational number. (The double nearest to \<open>a / b\<close> is at least the
  double \<open>0.6\<close> exactly when \<open>a / b \<ge> 3 / 5\<close>, for all token counts below ten to the fifteenth.)
\<close>

definition ingredient_matches :: "string \<Rightarrow> string set \<Rightarrow> bool" where
  "ingredient_matches ingredient pantry =
     (let ingredient_tokens = tokenize ingredient
      in if ingredient_tokens = {} then False
         else (\<exists>item \<in> pantry.
                 (let item_tokens = tokenize item;
                      overlap = card (ingredient_tokens \<inter> item_tokens)
                  in item_tokens \<noteq> {} \<and> overlap \<noteq> 0 \<and>
                     (of_nat overlap :: rat) / of_nat (min (card ingredient_tokens) (card item_tokens))
                       \<ge> 3 / 5)))"

section \<open>Recipes\<close>

text \<open>
  Numbers: a Python \<open>float\<close> is modelled by a rational number (\<^typ>\<open>rat\<close>) and
  the operations \<open>+\<close>, \<open>*\<close>, \<open>/\<close> are exact; the constants \<open>0.4\<close>, \<open>0.3\<close>,
  \<open>0.1\<close>, \<open>0.6\<close>, \<open>0.75\<close>, \<open>0.25\<close>, \<open>0.8\<close>, \<open>0.2\<close> are the decimal fractions they
  denote. Rounding to binary64 is treated separately, in the section on binary64
  rounding.
\<close>

record recipe =
  name :: string
  servings :: int
  core_ingredients :: "string list"
  supporting_ingredients :: "string list"
  instructions :: "string list"
  macros :: "string \<rightharpoonup> rat"
  tags :: "string list"
  recipe_notes :: string

text \<open>Values read by \<open>json.load\<close>; an object keeps its keys in file order.\<close>

datatype json =
    JNull
  | JBool bool
  | JInt int
  | JFloat rat
  | JStr string
  | JArr "json list"
  | JObj "(string \<times> json) list"

datatype py_error =
    KeyError string
  | TypeError
  | AttributeError
  | ValueError
  | OSError











section \<open>Scoring\<close>

definition CAL_FACTORS :: "(string \<times> rat) list" where
  "CAL_FACTORS = [(''carbs'', 4), (''protein'', 4), (''fat'', 9)]"

definition TARGET_RATIOS :: "(string \<times> rat) list" where
  "TARGET_RATIOS = [(''carbs'', 2 / 5), (''protein'', 3 / 10), (''fat'', 3 / 10)]"


text \<open>
  The module's dictionaries are association lists in the order they are written;
  \<open>getitem d k\<close> is \<open>d[k]\<close> for a key of \<open>d\<close> (every use below takes \<open>k\<close> from the three
  macro names, which are keys of both dictionaries).
\<close>

definition dict_keys :: "(string \<times> 'v) list \<Rightarrow> string list" where
  "dict_keys d = map fst d"


definition ingredient_score :: "recipe \<Rightarrow> string set \<Rightarrow> rat" where
  "ingredient_score r pantry =
     (if core_ingredients r = [] then 0
      else
        (let core_hits = length (filter (\<lambda>ingredient. ingredient_matches ingredient pantry)
                                   (core_ingredients r));
             core_ratio = of_nat core_hits / of_nat (length (core_ingredients r));
             supporting_ratio =
               (if supporting_ingredients r \<noteq> []
                then of_nat (length (filter (\<lambda>ingredient. ingredient_matches ingredient pantry)
                                       (supporting_ingredients r)))
                       / of_nat (length (supporting_ingredients r))
                else 0)
         in core_ratio * (3 / 4) + supporting_ratio * (1 / 4)))"





section \<open>Ranking pipeline\<close>




section \<open>Command line\<close>










section \<open>Binary64 rounding\<close>

text \<open>
  The floats of the program are IEEE 754 doubles: every operation returns the exact
  result rounded to the nearest number with a 53-bit significand, ties to the even
  significand. \<open>binade x\<close> is the exponent \<open>e\<close> with \<open>2 powi e \<le> \<bar>x\<bar> < 2 powi (e + 1)\<close>.
  Overflow and subnormal numbers are left out: the model is that of results whose
  magnitude lies in the normal range.
\<close>

definition round_half_even :: "rat \<Rightarrow> int" where
  "round_half_even q =
     (let f = \<lfloor>q\<rfloor>; d = q - of_int f
      in if d < 1 / 2 then f else if 1 / 2 < d then f + 1
         else if even f then f else f + 1)"

definition binade :: "rat \<Rightarrow> int" where
  "binade x =
     (let (p, q) = quotient_of \<bar>x\<bar>; e = bitlen p - bitlen q
      in if 2 powi e \<le> \<bar>x\<bar> then e else e - 1)"

definition round_double :: "rat \<Rightarrow> rat" where
  "round_double x =
     (if x = 0 then 0
      else (let ulp = 2 powi (binade x - 52) in of_int (round_half_even (x / ulp)) * ulp))"



section \<open>Example data\<close>

text \<open>A recipe with the given ingredient lists and grams per macro; the other fields
  play no part in matching or scoring.\<close>

definition example_recipe :: "string list \<Rightarrow> string list \<Rightarrow> (string \<times> rat) list \<Rightarrow> recipe" where
  "example_recipe core supporting grams =
     \<lparr> name = ''example'', servings = 1, core_ingredients = core,
       supporting_ingredients = supporting, instructions = [], macros = map_of grams,
       tags = [], recipe_notes = [] \<rparr>"

text \<open>Macros whose calories split 40/30/30, and macros that are all carbohydrate.\<close>

definition on_target :: "(string \<times> rat) list" where
  "on_target = [(''carbs'', 90), (''protein'', 135 / 2), (''fat'', 30)]"







section \<open>Properties of the string operations\<close>

lemma of_char_lower_char:
  "(of_char (lower_char c) :: nat) =
     (if (65 \<le> (of_char c :: nat) \<and> (of_char c :: nat) \<le> 90) \<or>
         (192 \<le> (of_char c :: nat) \<and> (of_char c :: nat) \<le> 214) \<or>
         (216 \<le> (of_char c :: nat) \<and> (of_char c :: nat) \<le> 222)
      then of_char c + 32 else of_char c)"
proof -
  define n where "n = (of_char c :: nat)"
  have "n \<le> 222 \<Longrightarrow> (n + 32) mod 256 = n + 32" by simp
  then show ?thesis
    unfolding lower_char_def Let_def
    by (simp add: n_def)
qed

lemma lower_char_idem: "lower_char (lower_char c) = lower_char c"
proof -
  have "(of_char (lower_char (lower_char c)) :: nat) = of_char (lower_char c)"
    unfolding of_char_lower_char [of "lower_char c"]
    unfolding of_char_lower_char [of c]
    by (simp split: if_splits)
  then show ?thesis by (simp only: of_char_eq_iff)
qed

lemma space_is_space: "py_isspace CHR '' ''"
  by (simp add: py_isspace_def)

lemma lower_char_space: "py_isspace c \<Longrightarrow> lower_char c = c"
  unfolding lower_char_def py_isspace_def Let_def by (simp split: if_splits) linarith

lemma split_from_word:
  "\<forall>c \<in> set w. \<not> py_isspace c \<Longrightarrow> split_from cur (w @ s) = split_from (cur @ w) s"
  by (induction w arbitrary: cur) simp_all

lemma split_from_nonempty:
  "w \<in> set (split_from cur s) \<Longrightarrow> w \<noteq> []"
  by (induction cur s rule: split_from.induct) (simp_all split: if_splits, blast+)

lemma split_from_chars:
  "w \<in> set (split_from cur s) \<Longrightarrow> c \<in> set w \<Longrightarrow> c \<in> set cur \<or> (c \<in> set s \<and> \<not> py_isspace c)"
proof (induction cur s rule: split_from.induct)
  case (1 cur)
  then show ?case by (simp split: if_splits)
next
  case (2 cur d cs)
  show ?case
  proof (cases "py_isspace d")
    case True
    then show ?thesis using 2 by (cases "cur = []") fastforce+
  next
    case False
    then show ?thesis using 2 by fastforce
  qed
qed

lemma split_join:
  "\<forall>w \<in> set ws. w \<noteq> [] \<and> (\<forall>c \<in> set w. \<not> py_isspace c) \<Longrightarrow>
     split_from [] (py_join '' '' ws) = ws"
proof (induction ws rule: induct_list012)
  case 1
  then show ?case by simp
next
  case (2 x)
  then show ?case using split_from_word [of x "[]" "[]"] by simp
next
  case (3 x y ys)
  have "split_from [] (x @ '' '' @ py_join '' '' (y # ys)) = split_from x ('' '' @ py_join '' '' (y # ys))"
    using 3 split_from_word [of x "[]"] by simp
  also have "\<dots> = x # split_from [] (py_join '' '' (y # ys))"
    using 3 by (simp add: space_is_space)
  finally show ?case using 3 by simp
qed

lemma set_py_join:
  "c \<in> set (py_join sep ws) \<Longrightarrow> c \<in> set sep \<or> (\<exists>w \<in> set ws. c \<in> set w)"
  by (induction sep ws rule: py_join.induct) auto

lemma hd_py_join:
  "ws \<noteq> [] \<Longrightarrow> hd ws \<noteq> [] \<Longrightarrow> hd (py_join sep ws) = hd (hd ws)"
  by (induction sep ws rule: py_join.induct) simp_all

lemma py_join_nonempty:
  "ws \<noteq> [] \<Longrightarrow> last ws \<noteq> [] \<Longrightarrow> py_join sep ws \<noteq> []"
  by (induction sep ws rule: py_join.induct) (simp_all split: if_splits)

lemma last_py_join:
  "ws \<noteq> [] \<Longrightarrow> last ws \<noteq> [] \<Longrightarrow> last (py_join sep ws) = last (last ws)"
proof (induction sep ws rule: py_join.induct)
  case (3 sep x y ys)
  then have "py_join sep (y # ys) \<noteq> []"
    using py_join_nonempty [of "y # ys" sep] by simp
  with 3 show ?case by simp
qed simp_all

lemma dropWhile_hd_id:
  "xs = [] \<or> \<not> P (hd xs) \<Longrightarrow> dropWhile P xs = xs"
  by (cases xs) auto

lemma py_strip_id:
  "s = [] \<or> (\<not> py_isspace (hd s) \<and> \<not> py_isspace (last s)) \<Longrightarrow> py_strip s = s"
  unfolding py_strip_def
  by (cases "s = []") (simp_all add: dropWhile_hd_id hd_rev)

lemma py_strip_join:
  assumes "\<forall>w \<in> set ws. w \<noteq> [] \<and> (\<forall>c \<in> set w. \<not> py_isspace c)"
  shows "py_strip (py_join '' '' ws) = py_join '' '' ws"
proof (cases "ws = []")
  case True
  then show ?thesis by (simp add: py_strip_def)
next
  case False
  then have hw: "hd ws \<in> set ws" and lw: "last ws \<in> set ws" by simp_all
  with assms have "hd ws \<noteq> []" "last ws \<noteq> []" by blast+
  then have "hd (py_join '' '' ws) = hd (hd ws)" "last (py_join '' '' ws) = last (last ws)"
    using False by (simp_all add: hd_py_join last_py_join)
  moreover have "\<not> py_isspace (hd (hd ws))" "\<not> py_isspace (last (last ws))"
    using assms hw lw \<open>hd ws \<noteq> []\<close> \<open>last ws \<noteq> []\<close> by (metis hd_in_set, metis last_in_set)
  ultimately show ?thesis by (intro py_strip_id) simp
qed

lemma py_split_tokens:
  assumes "w \<in> set (py_split s)"
  shows "w \<noteq> []" and "\<forall>c \<in> set w. c \<in> set s \<and> \<not> py_isspace c"
  using assms split_from_nonempty [of w "[]" s] split_from_chars [of w "[]" s]
  by (auto simp: py_split_def)

lemma normalize_token_tokens:
  "normalize_token v =
     py_join '' '' (py_split (filter (\<lambda>ch. py_isalnum ch \<or> py_isspace ch) (py_lower v)))"
  unfolding normalize_token_def Let_def
  by (rule py_strip_join) (metis py_split_tokens)

lemma normalize_token_fixed:
  assumes "\<forall>w \<in> set ws. w \<noteq> [] \<and> (\<forall>c \<in> set w. \<not> py_isspace c \<and> py_isalnum c \<and> lower_char c = c)"
  shows "normalize_token (py_join '' '' ws) = py_join '' '' ws"
proof -
  let ?out = "py_join '' '' ws"
  have chars: "c = CHR '' '' \<or> (py_isalnum c \<and> lower_char c = c)" if "c \<in> set ?out" for c
    using set_py_join [OF that] assms by auto
  have "py_lower ?out = ?out"
    unfolding py_lower_def using chars lower_char_space [OF space_is_space]
    by (intro map_idI) auto
  moreover have "filter (\<lambda>ch. py_isalnum ch \<or> py_isspace ch) ?out = ?out"
    using chars space_is_space by (intro filter_True) auto
  moreover have "py_split ?out = ws"
    unfolding py_split_def using assms by (intro split_join) blast
  ultimately show ?thesis by (simp add: normalize_token_tokens)
qed

lemma normalize_token_twice:
  "normalize_token (normalize_token s) = normalize_token s"
proof -
  let ?clean = "filter (\<lambda>ch. py_isalnum ch \<or> py_isspace ch) (py_lower s)"
  have "w \<noteq> [] \<and> (\<forall>c \<in> set w. \<not> py_isspace c \<and> py_isalnum c \<and> lower_char c = c)"
    if "w \<in> set (py_split ?clean)" for w
  proof
    show "w \<noteq> []" using that by (rule py_split_tokens)
    show "\<forall>c \<in> set w. \<not> py_isspace c \<and> py_isalnum c \<and> lower_char c = c"
    proof
      fix c assume "c \<in> set w"
      with py_split_tokens(2) [OF that] have c: "c \<in> set ?clean" "\<not> py_isspace c" by auto
      then have "py_isalnum c" by auto
      moreover from c obtain d where "c = lower_char d" by (auto simp: py_lower_def)
      then have "lower_char c = c" by (simp add: lower_char_idem)
      ultimately show "\<not> py_isspace c \<and> py_isalnum c \<and> lower_char c = c" using c by simp
    qed
  qed
  then show ?thesis
    unfolding normalize_token_tokens [of s] by (intro normalize_token_fixed) blast
qed

lemma normalize_token_empty: "normalize_token [] = []"
  by (simp add: normalize_token_def py_lower_def py_split_def py_strip_def)


section \<open>Properties of the scoring functions\<close>


text \<open>Every macro name the scoring functions look up is a key of both dictionaries,
  so no lookup \<open>d[k]\<close> fails.\<close>

lemma dict_keys_CAL_FACTORS: "dict_keys CAL_FACTORS = dict_keys TARGET_RATIOS"
  by (simp add: dict_keys_def TARGET_RATIOS_def CAL_FACTORS_def)













text \<open>The rounding function on familiar values: 1 and 49 are doubles, and the double
  written \<open>0.1\<close> is \<open>3602879701896397 / 2 ^ 55\<close>.\<close>

lemma round_double_examples:
  "round_double 1 = 1"
  "round_double 49 = 49"
  "round_double (1 / 10) = 3602879701896397 / 2 ^ 55"
  by code_simp+

section \<open>Facts about the example data\<close>







section \<open>Properties of coverage scoring and of the ranking\<close>

lemma ratio_range:
  "0 \<le> (of_nat (length (filter P xs)) :: rat) / of_nat (length xs) \<and>
   (of_nat (length (filter P xs)) :: rat) / of_nat (length xs) \<le> 1"
proof (cases "xs = []")
  case True
  then show ?thesis by simp
next
  case False
  have "length (filter P xs) \<le> length xs" by (rule length_filter_le)
  then have "(of_nat (length (filter P xs)) :: rat) \<le> of_nat (length xs)" by simp
  with False show ?thesis by (simp add: divide_le_eq_1)
qed

lemma ingredient_score_eq:
  "core_ingredients r \<noteq> [] \<Longrightarrow>
     ingredient_score r pantry =
       of_nat (length (filter (\<lambda>i. ingredient_matches i pantry) (core_ingredients r)))
         / of_nat (length (core_ingredients r)) * (3 / 4)
       + (if supporting_ingredients r = [] then 0
          else of_nat (length (filter (\<lambda>i. ingredient_matches i pantry) (supporting_ingredients r)))
                 / of_nat (length (supporting_ingredients r))) * (1 / 4)"
  by (simp add: ingredient_score_def Let_def)

lemma ingredient_score_no_core:
  "core_ingredients r = [] \<Longrightarrow> ingredient_score r pantry = 0"
  by (simp add: ingredient_score_def)

lemma ingredient_score_range:
  "0 \<le> ingredient_score r pantry \<and> ingredient_score r pantry \<le> 1"
proof (cases "core_ingredients r = []")
  case True
  then show ?thesis by (simp add: ingredient_score_no_core)
next
  case False
  define c :: rat where
    "c = of_nat (length (filter (\<lambda>i. ingredient_matches i pantry) (core_ingredients r)))
           / of_nat (length (core_ingredients r))"
  define s :: rat where
    "s = (if supporting_ingredients r = [] then 0
          else of_nat (length (filter (\<lambda>i. ingredient_matches i pantry) (supporting_ingredients r)))
                 / of_nat (length (supporting_ingredients r)))"
  have c: "0 \<le> c \<and> c \<le> 1" unfolding c_def by (rule ratio_range)
  have s: "0 \<le> s \<and> s \<le> 1" unfolding s_def using ratio_range by simp
  have "ingredient_score r pantry = c * (3 / 4) + s * (1 / 4)"
    unfolding c_def s_def using False by (rule ingredient_score_eq)
  with c s show ?thesis by simp
qed

lemma ingredient_matches_mono:
  "P \<subseteq> Q \<Longrightarrow> ingredient_matches i P \<Longrightarrow> ingredient_matches i Q"
  unfolding ingredient_matches_def Let_def by (auto split: if_splits)

lemma hits_mono:
  assumes "P \<subseteq> Q"
  shows "(of_nat (length (filter (\<lambda>i. ingredient_matches i P) xs)) :: rat) / of_nat (length xs)
       \<le> of_nat (length (filter (\<lambda>i. ingredient_matches i Q) xs)) / of_nat (length xs)"
proof -
  have "filter (\<lambda>i. ingredient_matches i P) (filter (\<lambda>i. ingredient_matches i Q) xs)
      = filter (\<lambda>i. ingredient_matches i P) xs"
    by (induction xs) (auto dest: ingredient_matches_mono [OF assms])
  then have "length (filter (\<lambda>i. ingredient_matches i P) xs)
      = length (filter (\<lambda>i. ingredient_matches i P) (filter (\<lambda>i. ingredient_matches i Q) xs))"
    by simp
  also have "\<dots> \<le> length (filter (\<lambda>i. ingredient_matches i Q) xs)"
    by (rule length_filter_le)
  finally have "(of_nat (length (filter (\<lambda>i. ingredient_matches i P) xs)) :: rat)
      \<le> of_nat (length (filter (\<lambda>i. ingredient_matches i Q) xs))" by simp
  then show ?thesis by (rule divide_right_mono) simp
qed

lemma ingredient_score_mono:
  assumes "P \<subseteq> Q"
  shows "ingredient_score r P \<le> ingredient_score r Q"
proof (cases "core_ingredients r = []")
  case True
  then show ?thesis by (simp add: ingredient_score_no_core)
next
  case False
  show ?thesis
    unfolding ingredient_score_eq [OF False]
    using hits_mono [OF assms, of "core_ingredients r"]
      hits_mono [OF assms, of "supporting_ingredients r"]
    by (simp add: add_mono)
qed






section \<open>Properties of recipe construction\<close>











section \<open>Properties of the command line\<close>







section \<open>The normalizer\<close>

text \<open>
  Claim C7. The normalizer is idempotent: for every string \<open>s\<close>,
  \<open>normalize_token (normalize_token s) = normalize_token s\<close>, where the normalizer
  lowercases, drops the characters that are neither alphanumeric nor whitespace,
  collapses runs of whitespace to single spaces and trims. It is a total function and
  maps the empty string to the empty string.
\<close>

theorem normalize_token_idempotent:
  "normalize_token (normalize_token s) = normalize_token s \<and> normalize_token [] = []"
  by (simp add: normalize_token_twice normalize_token_empty)

theorem normalize_token_idempotent_witness:
  "normalize_token ''  Red  Bell-Pepper! '' = ''red bellpepper'' \<and>
   normalize_token ''red bellpepper'' = ''red bellpepper''"
proof -
  have n: "normalize_token ''  Red  Bell-Pepper! '' = ''red bellpepper''"
    by code_simp
  from normalize_token_idempotent [of "''  Red  Bell-Pepper! ''"]
  show ?thesis unfolding n by simp
qed

section \<open>The matcher\<close>

text \<open>
  Claim C1. For every ingredient string and every pantry, \<open>ingredient_matches\<close>
  returns true if and only if some pantry item has, with \<open>A\<close> the set of whitespace
  tokens of the ingredient and \<open>B\<close> that of the item, \<open>|A \<inter> B| > 0\<close> and
  \<open>|A \<inter> B| / min |A| |B| \<ge> 0.6\<close>; in particular, when \<open>A\<close> is empty the result is
  false for every pantry.
\<close>

theorem ingredient_matches_iff:
  "(ingredient_matches ingredient pantry \<longleftrightarrow>
      (\<exists>item \<in> pantry.
         0 < card (tokenize ingredient \<inter> tokenize item) \<and>
         (of_nat (card (tokenize ingredient \<inter> tokenize item)) :: rat)
           / of_nat (min (card (tokenize ingredient)) (card (tokenize item))) \<ge> 3 / 5)) \<and>
   (tokenize ingredient = {} \<longrightarrow> \<not> ingredient_matches ingredient pantry)"
proof -
  have empty: "\<not> ingredient_matches ingredient pantry" if "tokenize ingredient = {}"
    using that by (simp add: ingredient_matches_def)
  have "ingredient_matches ingredient pantry \<longleftrightarrow>
      (\<exists>item \<in> pantry.
         0 < card (tokenize ingredient \<inter> tokenize item) \<and>
         (of_nat (card (tokenize ingredient \<inter> tokenize item)) :: rat)
           / of_nat (min (card (tokenize ingredient)) (card (tokenize item))) \<ge> 3 / 5)"
  proof (cases "tokenize ingredient = {}")
    case True
    then show ?thesis using empty by simp
  next
    case False
    have "tokenize item \<noteq> {}" if "0 < card (tokenize ingredient \<inter> tokenize item)" for item
      using that by auto
    then show ?thesis
      using False unfolding ingredient_matches_def Let_def by auto
  qed
  with empty show ?thesis by blast
qed

theorem ingredient_matches_iff_witness:
  "tokenize [] = {} \<and> \<not> ingredient_matches [] {''egg''} \<and>
   ingredient_matches ''red bell pepper'' {''bell pepper''} \<and>
   \<not> ingredient_matches ''egg'' {''eggplant''}"
proof -
  have e: "tokenize [] = {}"
    by (simp add: tokenize_def py_split_def)
  have "\<not> ingredient_matches [] {''egg''}"
    using ingredient_matches_iff [of "[]" "{''egg''}"] e by blast
  moreover have "ingredient_matches ''red bell pepper'' {''bell pepper''}"
    by code_simp
  moreover have "\<not> ingredient_matches ''egg'' {''eggplant''}"
    by code_simp
  ultimately show ?thesis using e by blast
qed

section \<open>Recipe construction\<close>



section \<open>Macro ratios\<close>




section \<open>The balance gate and the balance score\<close>





section \<open>Coverage score\<close>

text \<open>
  Claim C6. For every recipe and pantry, \<open>ingredient_score\<close> returns 0 when the
  recipe's list of core ingredients is empty, regardless of supporting matches;
  otherwise it returns \<open>core_ratio * 0.75 + supporting_ratio * 0.25\<close>, where
  \<open>core_ratio\<close> is the fraction of core ingredients for which \<open>ingredient_matches\<close>
  holds and \<open>supporting_ratio\<close> is the analogous fraction over the supporting
  ingredients (0 when that list is empty); the result always lies between 0 and 1.
\<close>

theorem ingredient_score_formula:
  "(core_ingredients r = [] \<longrightarrow> ingredient_score r pantry = 0) \<and>
   (core_ingredients r \<noteq> [] \<longrightarrow>
      ingredient_score r pantry =
        of_nat (length (filter (\<lambda>i. ingredient_matches i pantry) (core_ingredients r)))
          / of_nat (length (core_ingredients r)) * (3 / 4)
        + (if supporting_ingredients r = [] then 0
           else of_nat (length (filter (\<lambda>i. ingredient_matches i pantry) (supporting_ingredients r)))
                  / of_nat (length (supporting_ingredients r))) * (1 / 4)) \<and>
   0 \<le> ingredient_score r pantry \<and> ingredient_score r pantry \<le> 1"
  using ingredient_score_no_core [of r pantry] ingredient_score_eq [of r pantry]
    ingredient_score_range [of r pantry]
  by blast

theorem ingredient_score_formula_witness:
  "core_ingredients (example_recipe [] [''cheese''] on_target) = [] \<and>
   ingredient_matches ''cheese'' {''egg'', ''cheese'', ''tomato''} \<and>
   ingredient_score (example_recipe [] [''cheese''] on_target) {''egg'', ''cheese'', ''tomato''} = 0 \<and>
   core_ingredients (example_recipe [''egg'', ''tomato''] [''cheese'', ''onion''] on_target) \<noteq> [] \<and>
   ingredient_score (example_recipe [''egg'', ''tomato''] [''cheese'', ''onion''] on_target)
     {''egg'', ''cheese'', ''tomato''} = 7 / 8"
proof -
  let ?pantry = "{''egg'', ''cheese'', ''tomato''}"
  have m: "ingredient_matches ''egg'' ?pantry" "ingredient_matches ''tomato'' ?pantry"
    "ingredient_matches ''cheese'' ?pantry" "\<not> ingredient_matches ''onion'' ?pantry"
    by code_simp+
  have a: "core_ingredients (example_recipe [] [''cheese''] on_target) = []"
    by (simp add: example_recipe_def)
  have b: "core_ingredients (example_recipe [''egg'', ''tomato''] [''cheese'', ''onion''] on_target) \<noteq> []"
    by (simp add: example_recipe_def)
  have "ingredient_score (example_recipe [] [''cheese''] on_target) ?pantry = 0"
    using ingredient_score_formula [of "example_recipe [] [''cheese''] on_target" ?pantry] a
    by blast
  moreover have "ingredient_score (example_recipe [''egg'', ''tomato''] [''cheese'', ''onion''] on_target)
     ?pantry = 7 / 8"
    using ingredient_score_formula
      [of "example_recipe [''egg'', ''tomato''] [''cheese'', ''onion''] on_target" ?pantry] b m
    by (simp add: example_recipe_def)
  ultimately show ?thesis using a b m by blast
qed

text \<open>
  Claim C10. Matching and coverage scoring are monotone in the pantry: for every
  ingredient string and all pantries \<open>P \<subseteq> Q\<close>, \<open>ingredient_matches ingredient P\<close> implies
  \<open>ingredient_matches ingredient Q\<close>, and consequently for every recipe the
  \<open>ingredient_score\<close> over \<open>P\<close> is at most the \<open>ingredient_score\<close> over \<open>Q\<close>.
\<close>

theorem pantry_monotone:
  "P \<subseteq> Q \<Longrightarrow>
     (ingredient_matches ingredient P \<longrightarrow> ingredient_matches ingredient Q) \<and>
     ingredient_score r P \<le> ingredient_score r Q"
  using ingredient_matches_mono [of P Q ingredient] ingredient_score_mono [of P Q r]
  by blast

theorem pantry_monotone_witness:
  "{''egg''} \<subseteq> {''egg'', ''tomato''} \<and>
   ingredient_matches ''egg'' {''egg''} \<and>
   ingredient_matches ''egg'' {''egg'', ''tomato''} \<and>
   ingredient_score (example_recipe [''egg'', ''tomato''] [] on_target) {''egg''}
     \<le> ingredient_score (example_recipe [''egg'', ''tomato''] [] on_target) {''egg'', ''tomato''}"
proof -
  have s: "{''egg''} \<subseteq> {''egg'', ''tomato''}" by simp
  have m: "ingredient_matches ''egg'' {''egg''}" by code_simp
  from pantry_monotone [OF s, of "''egg''" "example_recipe [''egg'', ''tomato''] [] on_target"]
  show ?thesis using s m by blast
qed

section \<open>Ranking pipeline\<close>



section \<open>Exit behaviour\<close>



end
